theory Spec2Isabelle
  imports Complex_Main "HOL-Library.Sublist"
begin

section \<open>Conventions\<close>

text \<open>
  The development embeds the logic of the molecule viewer (\<^verbatim>\<open>InteractiveMoleculeViewer\<close>),
  of the comparison engine (\<^verbatim>\<open>ComparisonEngine.handleCompare\<close>) and of the tolerant JSON
  parser (\<^verbatim>\<open>geminiService.parseJSON\<close>).

  \<^item> JavaScript numbers are idealised as \<^typ>\<open>real\<close>: rounding, \<^verbatim>\<open>NaN\<close> and the infinities
    of IEEE doubles are not modelled. Atom ids, array indices and bond orders are \<^typ>\<open>int\<close>.
  \<^item> JavaScript strings are \<^typ>\<open>string\<close>, one \<^typ>\<open>char\<close> per code unit, so the strings of
    the model are those whose code units are below 256.
  \<^item> An exception is a value: a function that can throw returns a sum, with the exception
    on the left.
  \<^item> React state is passed explicitly; every handler maps the state it is given to the
    state it commits.
\<close>

section \<open>Viewport controller\<close>

text \<open>The state hooks \<^verbatim>\<open>transform\<close>, \<^verbatim>\<open>isDragging\<close> and \<^verbatim>\<open>startPan\<close> of
  \<^verbatim>\<open>MoleculeStructure2D\<close>.\<close>

record transform =
  t_k :: real
  t_x :: real
  t_y :: real

record viewport =
  transform :: transform
  isDragging :: bool
  startPan :: "real \<times> real"

definition identity_transform :: transform where
  "identity_transform = \<lparr>t_k = 1, t_x = 0, t_y = 0\<rparr>"

definition initial_viewport :: viewport where
  "initial_viewport =
     \<lparr>transform = identity_transform, isDragging = False, startPan = (0, 0)\<rparr>"

definition handleZoomIn :: "transform \<Rightarrow> transform" where
  "handleZoomIn t = t\<lparr>t_k := min (t_k t * 1.2) 5\<rparr>"

definition handleZoomOut :: "transform \<Rightarrow> transform" where
  "handleZoomOut t = t\<lparr>t_k := max (t_k t / 1.2) 0.5\<rparr>"

definition handleReset :: "transform \<Rightarrow> transform" where
  "handleReset t = \<lparr>t_k = 1, t_x = 0, t_y = 0\<rparr>"

text \<open>\<^verbatim>\<open>handleWheel\<close> reads \<^verbatim>\<open>transform.k\<close> of the render that created the handler
  (first argument) and writes the clamped value into the state it updates (last argument).\<close>

definition handleWheel :: "transform \<Rightarrow> real \<Rightarrow> transform \<Rightarrow> transform" where
  "handleWheel rendered deltaY prev =
     (let scaleAmount = - deltaY * 0.001;
          newScale = min (max 0.5 (t_k rendered + scaleAmount)) 5
      in prev\<lparr>t_k := newScale\<rparr>)"

definition handleMouseDown :: "real \<Rightarrow> real \<Rightarrow> viewport \<Rightarrow> viewport" where
  "handleMouseDown clientX clientY v =
     v\<lparr>isDragging := True,
       startPan := (clientX - t_x (transform v), clientY - t_y (transform v))\<rparr>"

definition handleMouseMove :: "real \<Rightarrow> real \<Rightarrow> viewport \<Rightarrow> viewport" where
  "handleMouseMove clientX clientY v =
     (if \<not> isDragging v then v
      else v\<lparr>transform := (transform v)
                \<lparr>t_x := clientX - fst (startPan v), t_y := clientY - snd (startPan v)\<rparr>\<rparr>)"

definition handleMouseUp :: "viewport \<Rightarrow> viewport" where
  "handleMouseUp v = v\<lparr>isDragging := False\<rparr>"

datatype viewport_event =
    ZoomIn | ZoomOut | Reset | Wheel real
  | MouseDown real real | MouseMove real real | MouseUp

text \<open>One event, handled by the handlers of the current render.\<close>

fun viewport_step :: "viewport \<Rightarrow> viewport_event \<Rightarrow> viewport" where
  "viewport_step v ZoomIn = v\<lparr>transform := handleZoomIn (transform v)\<rparr>"
| "viewport_step v ZoomOut = v\<lparr>transform := handleZoomOut (transform v)\<rparr>"
| "viewport_step v Reset = v\<lparr>transform := handleReset (transform v)\<rparr>"
| "viewport_step v (Wheel deltaY) =
     v\<lparr>transform := handleWheel (transform v) deltaY (transform v)\<rparr>"
| "viewport_step v (MouseDown cx cy) = handleMouseDown cx cy v"
| "viewport_step v (MouseMove cx cy) = handleMouseMove cx cy v"
| "viewport_step v MouseUp = handleMouseUp v"

definition viewport_run :: "viewport_event list \<Rightarrow> viewport \<Rightarrow> viewport" where
  "viewport_run evs v = foldl viewport_step v evs"

definition scale_in_range :: "viewport \<Rightarrow> bool" where
  "scale_in_range v = (0.5 \<le> t_k (transform v) \<and> t_k (transform v) \<le> 5)"

section \<open>Data model\<close>

text \<open>The interfaces of \<^verbatim>\<open>types.ts\<close>. Field names carry a prefix, since a record field is
  a constant of the theory.\<close>

record Atom3D =
  element3 :: string
  x3 :: real
  y3 :: real
  z3 :: real

record Bond =
  b_from :: int
  b_to :: int
  b_order :: int

record Atom2D =
  id2 :: int
  element2 :: string
  x2 :: real
  y2 :: real

record Structure2D =
  s2_atoms :: "Atom2D list"
  s2_bonds :: "Bond list"

record MoleculeStructure =
  ms_smiles :: string
  ms_inchi :: "string option"
  ms_verificationNote :: "string option"
  ms_atoms :: "Atom3D list"
  ms_bonds :: "Bond list"
  ms_structure2D :: "Structure2D option"

section \<open>Element colours and sphere radii\<close>

text \<open>A property read on the object literal \<^verbatim>\<open>ATOM_COLORS\<close> yields \<^verbatim>\<open>undefined\<close>, one of
  the colour strings, or a member inherited from \<^verbatim>\<open>Object.prototype\<close>.\<close>

datatype jsvalue = Undefined | Str string | Inherited string

definition truthy :: "jsvalue \<Rightarrow> bool" where
  "truthy v = (case v of Undefined \<Rightarrow> False | Str s \<Rightarrow> s \<noteq> [] | Inherited n \<Rightarrow> True)"

text \<open>The operator \<^verbatim>\<open>||\<close>.\<close>

definition js_or :: "jsvalue \<Rightarrow> jsvalue \<Rightarrow> jsvalue" where
  "js_or a b = (if truthy a then a else b)"

definition ATOM_COLORS_own :: "(string \<times> string) list" where
  "ATOM_COLORS_own =
     [(''H'', ''#FFFFFF''), (''C'', ''#909090''), (''N'', ''#3050F8''), (''O'', ''#FF0D0D''),
      (''F'', ''#90E050''), (''Cl'', ''#1FF01F''), (''Br'', ''#A62929''), (''I'', ''#940094''),
      (''P'', ''#FF8000''), (''S'', ''#FFFF30''), (''B'', ''#FFB5B5''), (''default'', ''#DA70D6'')]"

definition Object_prototype_keys :: "string list" where
  "Object_prototype_keys =
     [''constructor'', ''hasOwnProperty'', ''isPrototypeOf'', ''propertyIsEnumerable'',
      ''toLocaleString'', ''toString'', ''valueOf'', ''__proto__'', ''__defineGetter__'',
      ''__defineSetter__'', ''__lookupGetter__'', ''__lookupSetter__'']"

definition ATOM_COLORS :: "string \<Rightarrow> jsvalue" where
  "ATOM_COLORS key =
     (case map_of ATOM_COLORS_own key of
        Some c \<Rightarrow> Str c
      | None \<Rightarrow> if key \<in> set Object_prototype_keys then Inherited key else Undefined)"

text \<open>\<^verbatim>\<open>String.prototype.toUpperCase\<close> on one code unit below 256. The capitals of the micro
  sign (181) and of y with diaeresis (255) lie above 255 and are not strings of the model:
  the result is \<open>None\<close> there. The sharp s (223) becomes \<^verbatim>\<open>SS\<close>.\<close>

definition toUpperCase_char :: "char \<Rightarrow> string option" where
  "toUpperCase_char c =
     (let n = (of_char c :: nat) in
      if 97 \<le> n \<and> n \<le> 122 then Some [char_of (n - 32)]
      else if n = 223 then Some ''SS''
      else if n = 181 \<or> n = 255 then None
      else if 224 \<le> n \<and> n \<le> 254 \<and> n \<noteq> 247 then Some [char_of (n - 32)]
      else Some [c])"

text \<open>\<^verbatim>\<open>el.charAt(0).toUpperCase() + el.slice(1)\<close>.\<close>

definition capitalized :: "string \<Rightarrow> string option" where
  "capitalized el =
     (case el of
        [] \<Rightarrow> Some []
      | c # cs \<Rightarrow> (case toUpperCase_char c of None \<Rightarrow> None | Some u \<Rightarrow> Some (u @ cs)))"

text \<open>A key outside the model is no property of \<^verbatim>\<open>ATOM_COLORS\<close>, whose property names are
  all ASCII.\<close>

definition getAtomColor :: "string \<Rightarrow> jsvalue" where
  "getAtomColor el =
     js_or (ATOM_COLORS el)
       (js_or (case capitalized el of None \<Rightarrow> Undefined | Some key \<Rightarrow> ATOM_COLORS key)
          (ATOM_COLORS ''default''))"

text \<open>The first argument of \<^verbatim>\<open>sphereGeometry\<close>.\<close>

definition sphereRadius :: "string \<Rightarrow> real" where
  "sphereRadius el = (if el = ''H'' then 0.2 else 0.35)"

section \<open>Geometry normalizer and 3D scene\<close>

datatype vec3 = Vector3 (vx: real) (vy: real) (vz: real)

definition add :: "vec3 \<Rightarrow> vec3 \<Rightarrow> vec3" where
  "add u v = Vector3 (vx u + vx v) (vy u + vy v) (vz u + vz v)"

definition sub :: "vec3 \<Rightarrow> vec3 \<Rightarrow> vec3" where
  "sub u v = Vector3 (vx u - vx v) (vy u - vy v) (vz u - vz v)"

definition multiplyScalar :: "vec3 \<Rightarrow> real \<Rightarrow> vec3" where
  "multiplyScalar u s = Vector3 (vx u * s) (vy u * s) (vz u * s)"

definition divideScalar :: "vec3 \<Rightarrow> real \<Rightarrow> vec3" where
  "divideScalar u s = multiplyScalar u (1 / s)"

definition distanceTo :: "vec3 \<Rightarrow> vec3 \<Rightarrow> real" where
  "distanceTo u v = sqrt ((vx u - vx v)\<^sup>2 + (vy u - vy v)\<^sup>2 + (vz u - vz v)\<^sup>2)"

definition position3 :: "Atom3D \<Rightarrow> vec3" where
  "position3 a = Vector3 (x3 a) (y3 a) (z3 a)"

text \<open>The centroid, the largest distance from it and the scale factor, in exact arithmetic.
  The code computes them in doubles, where the sum, the product with \<open>1 / n\<close> and the square
  root are rounded: there the results agree with these up to rounding, and atoms that all
  lie at one point can get a centroid that differs from it in the last digit, hence a
  positive \<^verbatim>\<open>maxDist\<close>. For a single atom the centroid is the atom in both.\<close>

definition centroid_of :: "vec3 list \<Rightarrow> vec3" where
  "centroid_of ps = divideScalar (foldl add (Vector3 0 0 0) ps) (real (length ps))"

definition maxDist_of :: "vec3 list \<Rightarrow> vec3 \<Rightarrow> real" where
  "maxDist_of ps c =
     foldl (\<lambda>maxDist p. let dist = distanceTo p c in if dist > maxDist then dist else maxDist)
       0 ps"

definition scale_of :: "vec3 list \<Rightarrow> real" where
  "scale_of ps =
     (let maxDist = maxDist_of ps (centroid_of ps)
      in if maxDist > 0 then 5.5 / maxDist else 1)"

record node3D =
  pos :: vec3
  n_element :: string
  color :: jsvalue

text \<open>The memoised value of \<^verbatim>\<open>MoleculeStructure3D\<close>: the nodes and the connections.\<close>

definition scene3D :: "MoleculeStructure option \<Rightarrow> node3D list \<times> (int \<times> int) list" where
  "scene3D structureData =
     (case structureData of
        None \<Rightarrow> ([], [])
      | Some sd \<Rightarrow>
          if length (ms_atoms sd) > 0 then
            (let ps = map position3 (ms_atoms sd);
                 centroid = centroid_of ps;
                 scale = scale_of ps
             in (map (\<lambda>a. \<lparr>pos = multiplyScalar (sub (position3 a) centroid) scale,
                            n_element = element3 a,
                            color = getAtomColor (element3 a)\<rparr>) (ms_atoms sd),
                 map (\<lambda>b. (b_from b, b_to b)) (ms_bonds sd)))
          else ([], []))"

text \<open>Reading \<^verbatim>\<open>nodes[i]\<close>: \<^verbatim>\<open>undefined\<close> outside the array.\<close>

definition index :: "'a list \<Rightarrow> int \<Rightarrow> 'a option" where
  "index xs i = (if 0 \<le> i \<and> i < int (length xs) then Some (xs ! nat i) else None)"

datatype render_error = TypeError

datatype mesh =
    Sphere vec3 real jsvalue
  | Cylinder vec3 vec3 real

text \<open>The \<^verbatim>\<open>Bond\<close> element of one connection: \<^verbatim>\<open>nodes[conn[0]].pos\<close> and
  \<^verbatim>\<open>nodes[conn[1]].pos\<close> throw a \<^verbatim>\<open>TypeError\<close> when the node is \<^verbatim>\<open>undefined\<close>.\<close>

definition bond3D :: "node3D list \<Rightarrow> int \<times> int \<Rightarrow> render_error + mesh" where
  "bond3D nodes conn =
     (case index nodes (fst conn) of
        None \<Rightarrow> Inl TypeError
      | Some s \<Rightarrow>
          (case index nodes (snd conn) of
             None \<Rightarrow> Inl TypeError
           | Some e \<Rightarrow> Inr (Cylinder (pos s) (pos e) (distanceTo (pos s) (pos e)))))"

fun map_result :: "('a \<Rightarrow> 'e + 'b) \<Rightarrow> 'a list \<Rightarrow> 'e + 'b list" where
  "map_result f [] = Inr []"
| "map_result f (x # xs) =
     (case f x of
        Inl e \<Rightarrow> Inl e
      | Inr y \<Rightarrow> (case map_result f xs of Inl e \<Rightarrow> Inl e | Inr ys \<Rightarrow> Inr (y # ys)))"

text \<open>What \<^verbatim>\<open>MoleculeStructure3D\<close> renders: \<open>None\<close> for \<^verbatim>\<open>null\<close>, else the spheres followed
  by the bond cylinders.\<close>

definition MoleculeStructure3D :: "MoleculeStructure option \<Rightarrow> render_error + mesh list option" where
  "MoleculeStructure3D structureData =
     (let (nodes, connections) = scene3D structureData in
      if length nodes = 0 then Inr None
      else
        (case map_result (bond3D nodes) connections of
           Inl e \<Rightarrow> Inl e
         | Inr cylinders \<Rightarrow>
             Inr (Some (map (\<lambda>node. Sphere (pos node) (sphereRadius (n_element node)) (color node))
                          nodes @ cylinders))))"



section \<open>2D coordinate resolver\<close>

record resolved2D =
  r_nodes :: "Atom2D list"
  r_connections :: "Bond list"
  r_viewBox :: "real \<times> real \<times> real \<times> real"
  r_isFallback :: bool
  r_isOfficial :: bool

text \<open>The projection of the 3D atoms: the id of an atom is its index.\<close>

definition project3D :: "Atom3D list \<Rightarrow> Atom2D list" where
  "project3D as =
     map (\<lambda>(i, a). \<lparr>id2 = int i, element2 = element3 a, x2 = x3 a * 20, y2 = y3 a * 20\<rparr>)
       (enumerate 0 as)"

definition placeholder2D :: resolved2D where
  "placeholder2D =
     \<lparr>r_nodes = [], r_connections = [], r_viewBox = (0, 0, 100, 100),
      r_isFallback = False, r_isOfficial = False\<rparr>"

text \<open>The three branches that choose \<^verbatim>\<open>atomsList\<close>, \<^verbatim>\<open>bondsList\<close>, \<^verbatim>\<open>isFallbackData\<close> and
  \<^verbatim>\<open>isOfficial\<close>. The first tests \<^verbatim>\<open>pubChemData\<close> for being non-null only; the other two
  test the length of their atom list.\<close>

definition select_source ::
  "Structure2D option \<Rightarrow> MoleculeStructure option \<Rightarrow> Atom2D list \<times> Bond list \<times> bool \<times> bool" where
  "select_source pubChemData structureData =
     (case pubChemData of
        Some pc \<Rightarrow> (s2_atoms pc, s2_bonds pc, False, True)
      | None \<Rightarrow>
          (case structureData of
             None \<Rightarrow> ([], [], False, False)
           | Some sd \<Rightarrow>
               if (case ms_structure2D sd of None \<Rightarrow> False | Some s2 \<Rightarrow> length (s2_atoms s2) > 0)
               then (case ms_structure2D sd of
                       None \<Rightarrow> ([], [], False, False)
                     | Some s2 \<Rightarrow> (s2_atoms s2, s2_bonds s2, False, False))
               else if length (ms_atoms sd) > 0
               then (project3D (ms_atoms sd), ms_bonds sd, True, False)
               else ([], [], False, False)))"

text \<open>The memoised value of \<^verbatim>\<open>MoleculeStructure2D\<close>, without the \<^verbatim>\<open>idMap\<close>, which nothing
  reads. The view box is kept as its four numbers. The accumulators of the bounding box
  start at plus and minus infinity in the source; on the non-empty list of this branch that
  is the fold from the first atom.\<close>

definition resolve2D :: "Structure2D option \<Rightarrow> MoleculeStructure option \<Rightarrow> resolved2D" where
  "resolve2D pubChemData structureData =
     (let (atomsList, bondsList, isFallbackData, isOfficial) =
            select_source pubChemData structureData
      in case atomsList of
           [] \<Rightarrow> placeholder2D
         | a # rest \<Rightarrow>
             (let minX = foldl (\<lambda>m b. if x2 b < m then x2 b else m) (x2 a) rest;
                  maxX = foldl (\<lambda>m b. if x2 b > m then x2 b else m) (x2 a) rest;
                  minY = foldl (\<lambda>m b. if y2 b < m then y2 b else m) (y2 a) rest;
                  maxY = foldl (\<lambda>m b. if y2 b > m then y2 b else m) (y2 a) rest;
                  padding = (if isOfficial then 1.5 else 20);
                  width = (maxX - minX) + (padding * 2);
                  height = (maxY - minY) + (padding * 2);
                  vBoxX = minX - padding;
                  vBoxY = minY - padding
              in \<lparr>r_nodes = atomsList, r_connections = bondsList,
                  r_viewBox = (vBoxX, vBoxY, width, height),
                  r_isFallback = isFallbackData, r_isOfficial = isOfficial\<rparr>))"

section \<open>2D bond renderer\<close>

text \<open>One \<^verbatim>\<open><line>\<close> element. \<open>l_stroke = None\<close>: the stroke is inherited from the enclosing
  group, whose stroke is the bond colour.\<close>

record line =
  l_x1 :: real
  l_y1 :: real
  l_x2 :: real
  l_y2 :: real
  l_stroke :: "string option"
  l_strokeWidth :: real
  l_strokeDasharray :: "(real \<times> real) option"
  l_opacity :: "real option"

definition bondColor :: string where
  "bondColor = ''#94a3b8''"

definition backgroundColor :: string where
  "backgroundColor = ''#0B0F19''"

definition strokeScale_of :: "real \<Rightarrow> real \<Rightarrow> real" where
  "strokeScale_of vbWidth k = (max 0.3 (vbWidth / 100)) / k"

definition baseWidth_of :: "bool \<Rightarrow> real \<Rightarrow> real" where
  "baseWidth_of hasPubChem strokeScale = 0.6 * strokeScale * (if hasPubChem then 0.1 else 5)"

definition segment ::
  "Atom2D \<Rightarrow> Atom2D \<Rightarrow> string option \<Rightarrow> real \<Rightarrow> (real \<times> real) option \<Rightarrow> real option \<Rightarrow> line" where
  "segment fromNode toNode stroke width dash opacity =
     \<lparr>l_x1 = x2 fromNode, l_y1 = y2 fromNode, l_x2 = x2 toNode, l_y2 = y2 toNode,
      l_stroke = stroke, l_strokeWidth = width, l_strokeDasharray = dash, l_opacity = opacity\<rparr>"

text \<open>The callback of \<^verbatim>\<open>connections.map\<close>: \<open>None\<close> for \<^verbatim>\<open>null\<close>, else the lines of the
  group.\<close>

definition renderBond :: "bool \<Rightarrow> real \<Rightarrow> Atom2D list \<Rightarrow> Bond \<Rightarrow> line list option" where
  "renderBond hasPubChem strokeScale nodes conn =
     (case find (\<lambda>n. id2 n = b_from conn) nodes of
        None \<Rightarrow> None
      | Some fromNode \<Rightarrow>
          (case find (\<lambda>n. id2 n = b_to conn) nodes of
             None \<Rightarrow> None
           | Some toNode \<Rightarrow>
               (let isDouble = (b_order conn = 2);
                    isTriple = (b_order conn = 3);
                    isAromatic = (b_order conn = 4);
                    baseWidth = baseWidth_of hasPubChem strokeScale;
                    ln = segment fromNode toNode
                in Some
                  (if isDouble then
                     [ln None (baseWidth * 2.5) None None,
                      ln (Some backgroundColor) (baseWidth * 0.8) None None]
                   else if isTriple then
                     [ln None (baseWidth * 3.5) None None,
                      ln (Some backgroundColor) (baseWidth * 1.5) None None,
                      ln (Some bondColor) (baseWidth * 0.5) None None]
                   else if isAromatic then
                     [ln None baseWidth (Some (baseWidth * 2, baseWidth)) None,
                      ln None baseWidth None (Some 0.5)]
                   else
                     [ln None baseWidth None None]))))"

text \<open>The bond groups of the \<^verbatim>\<open><svg>\<close> element for given PubChem data, structure and
  scale \<open>k\<close>; \<open>None\<close> when the component shows the placeholder text instead, the node list
  being empty.\<close>

definition renderBonds2D ::
  "Structure2D option \<Rightarrow> MoleculeStructure option \<Rightarrow> real \<Rightarrow> line list option list option" where
  "renderBonds2D pubChemData structureData k =
     (let r = resolve2D pubChemData structureData in
      if length (r_nodes r) = 0 then None
      else
        (let vbWidth = fst (snd (snd (r_viewBox r)));
             strokeScale = strokeScale_of vbWidth k
         in Some (map (renderBond (pubChemData \<noteq> None) strokeScale (r_nodes r))
                    (r_connections r))))"

section \<open>External structure fetcher\<close>

text \<open>
  The effect of \<^verbatim>\<open>MoleculeStructure2D\<close> runs \<^verbatim>\<open>fetchPubChem\<close> on mount and whenever
  \<^verbatim>\<open>moleculeName\<close> changes. The function is asynchronous: its part before the first
  \<^verbatim>\<open>await\<close> runs at once, the rest when the response arrives. The state of the model is
  the state of the two hooks, the current name, and the requests that are outstanding, each
  with the number of its issue and the name it was issued for.
\<close>

record fetcher =
  moleculeName :: string
  pubChemData :: "Structure2D option"
  isLoadingPubChem :: bool
  inflight :: "(nat \<times> string) list"
  issued :: nat

text \<open>What the code after the \<^verbatim>\<open>await\<close> makes of a response: a parsed structure handed
  to \<^verbatim>\<open>setPubChemData\<close>, a response without compound, atoms or coordinates, or an exception
  (network failure, malformed JSON), which is caught and logged.\<close>

datatype fetch_outcome = Parsed Structure2D | NoCompound | Threw

definition fetchPubChem_start :: "string \<Rightarrow> fetcher \<Rightarrow> fetcher" where
  "fetchPubChem_start name s =
     (if name = [] then s
      else s\<lparr>pubChemData := None, isLoadingPubChem := True,
             inflight := inflight s @ [(issued s, name)], issued := issued s + 1\<rparr>)"

definition fetchPubChem_settle :: "fetch_outcome \<Rightarrow> fetcher \<Rightarrow> fetcher" where
  "fetchPubChem_settle outcome s =
     (case outcome of
        Parsed d \<Rightarrow> s\<lparr>pubChemData := Some d, isLoadingPubChem := False\<rparr>
      | NoCompound \<Rightarrow> s\<lparr>isLoadingPubChem := False\<rparr>
      | Threw \<Rightarrow> s\<lparr>isLoadingPubChem := False\<rparr>)"

definition mount :: "string \<Rightarrow> fetcher" where
  "mount name =
     fetchPubChem_start name
       \<lparr>moleculeName = name, pubChemData = None, isLoadingPubChem = False,
        inflight = [], issued = 0\<rparr>"

datatype fetch_event = Rename string | Resolve nat fetch_outcome

text \<open>A new name re-runs the effect; the response of request \<open>i\<close> settles that request,
  whatever the current name is. A response for a request that is not outstanding cannot
  arrive.\<close>

fun fetch_step :: "fetcher \<Rightarrow> fetch_event \<Rightarrow> fetcher" where
  "fetch_step s (Rename name) =
     (if name = moleculeName s then s
      else fetchPubChem_start name (s\<lparr>moleculeName := name\<rparr>))"
| "fetch_step s (Resolve i outcome) =
     (case map_of (inflight s) i of
        None \<Rightarrow> s
      | Some name \<Rightarrow>
          fetchPubChem_settle outcome (s\<lparr>inflight := filter (\<lambda>r. fst r \<noteq> i) (inflight s)\<rparr>))"

definition fetch_run :: "fetch_event list \<Rightarrow> fetcher \<Rightarrow> fetcher" where
  "fetch_run evs s = foldl fetch_step s evs"

section \<open>Tolerant JSON parser\<close>

datatype json =
    JNull | JBool bool | JNumber real | JString string
  | JArray "json list" | JObject "(string \<times> json) list"

datatype exn = Exn (message: string)


text \<open>The white space and line terminators of ECMAScript among the code units below 256.\<close>

definition isWhiteSpace :: "char \<Rightarrow> bool" where
  "isWhiteSpace c = ((of_char c :: nat) \<in> {9, 10, 11, 12, 13, 32, 160})"

definition trim :: "string \<Rightarrow> string" where
  "trim s = rev (dropWhile isWhiteSpace (rev (dropWhile isWhiteSpace s)))"







section \<open>Comparison engine\<close>

record ComparisonData =
  molecule1 :: string
  molecule2 :: string

record validation =
  mol1Valid :: bool
  mol2Valid :: bool

text \<open>The two service calls that \<^verbatim>\<open>handleCompare\<close> awaits: each resolves to a value or
  rejects with an exception.\<close>

record services =
  validateComparisonInputs :: "string \<Rightarrow> string \<Rightarrow> exn + validation"
  compareMoleculesText :: "string \<Rightarrow> string \<Rightarrow> exn + ComparisonData"

datatype AnalysisType = IMAGE | TEXT | COMPARISON | REPORT

record AnalysisResult =
  ar_id :: string
  ar_type :: AnalysisType
  ar_timestamp :: nat
  ar_title :: string
  ar_data :: ComparisonData

record ComparisonEngine =
  mol1 :: string
  mol2 :: string
  loading :: bool
  error :: "string option"
  data :: "ComparisonData option"

text \<open>What \<^verbatim>\<open>handleCompare\<close> does to the world outside its component.\<close>

datatype effect =
    ValidationRequest string string
  | ComparisonRequest string string
  | OnAnalysisComplete AnalysisResult

text \<open>\<^verbatim>\<open>Date.now().toString()\<close>.\<close>

fun toString :: "nat \<Rightarrow> string" where
  "toString n =
     (if n < 10 then [char_of (48 + n)]
      else toString (n div 10) @ [char_of (48 + n mod 10)])"

text \<open>The double quote, and an input between double quotes.\<close>

definition quoted :: "string \<Rightarrow> string" where
  "quoted s = [CHR 0x22] @ s @ [CHR 0x22]"

text \<open>The \<^verbatim>\<open>catch\<close> clause and the \<^verbatim>\<open>finally\<close> clause after it: the message of the
  exception, or the default text when it has none.\<close>

definition failed :: "exn \<Rightarrow> ComparisonEngine \<Rightarrow> ComparisonEngine" where
  "failed e s =
     s\<lparr>error := Some (if message e \<noteq> [] then message e
                      else ''Analysis failed. Please check your connection.''),
       loading := False\<rparr>"

text \<open>One call of \<^verbatim>\<open>handleCompare\<close>, from the state of the render that created it to the
  state after its last update, with the requests and callbacks in the order they are made.
  \<open>now\<close> is the value of \<^verbatim>\<open>Date.now()\<close>.\<close>

definition handleCompare ::
  "services \<Rightarrow> nat \<Rightarrow> ComparisonEngine \<Rightarrow> ComparisonEngine \<times> effect list" where
  "handleCompare api now s =
     (if trim (mol1 s) = [] \<or> trim (mol2 s) = [] then (s, [])
      else
        (let s1 = s\<lparr>loading := True, error := None, data := None\<rparr> in
         case validateComparisonInputs api (mol1 s) (mol2 s) of
           Inl e \<Rightarrow> (failed e s1, [ValidationRequest (mol1 s) (mol2 s)])
         | Inr validation \<Rightarrow>
             if \<not> mol1Valid validation \<or> \<not> mol2Valid validation then
               (let msg = ''Invalid Input: '' @
                      (if \<not> mol1Valid validation \<and> \<not> mol2Valid validation
                       then ''Both inputs are not recognized as valid chemical entities.''
                       else if \<not> mol1Valid validation
                       then quoted (mol1 s) @
                            '' is not a recognized molecule or valid structure format.''
                       else if \<not> mol2Valid validation
                       then quoted (mol2 s) @
                            '' is not a recognized molecule or valid structure format.''
                       else [])
                in (s1\<lparr>error := Some msg, loading := False\<rparr>,
                    [ValidationRequest (mol1 s) (mol2 s)]))
             else
               (case compareMoleculesText api (mol1 s) (mol2 s) of
                  Inl e \<Rightarrow>
                    (failed e s1,
                     [ValidationRequest (mol1 s) (mol2 s), ComparisonRequest (mol1 s) (mol2 s)])
                | Inr result \<Rightarrow>
                    (s1\<lparr>data := Some result, loading := False\<rparr>,
                     [ValidationRequest (mol1 s) (mol2 s), ComparisonRequest (mol1 s) (mol2 s),
                      OnAnalysisComplete
                        \<lparr>ar_id = toString now, ar_type = COMPARISON, ar_timestamp = now,
                         ar_title = ''Comparison: '' @ molecule1 result @ '' vs '' @ molecule2 result,
                         ar_data = result\<rparr>]))))"

section \<open>Example inputs\<close>



text \<open>One carbon atom and a bond from it to the atom of index 5, which does not exist.\<close>

definition dangling3D :: MoleculeStructure where
  "dangling3D =
     \<lparr>ms_smiles = ''C'', ms_inchi = None, ms_verificationNote = None,
      ms_atoms = [\<lparr>element3 = ''C'', x3 = 0, y3 = 0, z3 = 0\<rparr>],
      ms_bonds = [\<lparr>b_from = 0, b_to = 5, b_order = 1\<rparr>],
      ms_structure2D = None\<rparr>"

definition water2D :: Structure2D where
  "water2D =
     \<lparr>s2_atoms = [\<lparr>id2 = 1, element2 = ''O'', x2 = 0, y2 = 0\<rparr>,
                  \<lparr>id2 = 2, element2 = ''H'', x2 = 10, y2 = 5\<rparr>,
                  \<lparr>id2 = 3, element2 = ''H'', x2 = - 10, y2 = 5\<rparr>],
      s2_bonds = [\<lparr>b_from = 1, b_to = 2, b_order = 1\<rparr>, \<lparr>b_from = 1, b_to = 3, b_order = 1\<rparr>]\<rparr>"

definition water :: MoleculeStructure where
  "water =
     \<lparr>ms_smiles = ''O'', ms_inchi = None, ms_verificationNote = None,
      ms_atoms = [\<lparr>element3 = ''O'', x3 = 0, y3 = 0, z3 = 0\<rparr>,
                  \<lparr>element3 = ''H'', x3 = 1, y3 = 0, z3 = 0\<rparr>,
                  \<lparr>element3 = ''H'', x3 = 0, y3 = 1, z3 = 0\<rparr>],
      ms_bonds = [\<lparr>b_from = 0, b_to = 1, b_order = 1\<rparr>, \<lparr>b_from = 0, b_to = 2, b_order = 1\<rparr>],
      ms_structure2D = Some water2D\<rparr>"

text \<open>PubChem data whose atom list is empty: what \<^verbatim>\<open>setPubChemData\<close> is given for a record
  whose \<^verbatim>\<open>atoms.aid\<close> is the empty array.\<close>

definition empty_layout :: Structure2D where
  "empty_layout = \<lparr>s2_atoms = [], s2_bonds = []\<rparr>"

definition carbon_pair :: "Atom2D list" where
  "carbon_pair =
     [\<lparr>id2 = 7, element2 = ''C'', x2 = 0, y2 = 0\<rparr>,
      \<lparr>id2 = 9, element2 = ''C'', x2 = 30, y2 = 40\<rparr>]"

definition bond79 :: "int \<Rightarrow> Bond" where
  "bond79 ord = \<lparr>b_from = 7, b_to = 9, b_order = ord\<rparr>"




text \<open>The comparison of aspirin with a string that is no molecule, a validation service
  that accepts aspirin only, and a query whose second input is a space and a tabulator.\<close>

definition aspirin_query :: ComparisonEngine where
  "aspirin_query =
     \<lparr>mol1 = ''aspirin'', mol2 = ''xyz123notamolecule'', loading = False,
      error = None, data = None\<rparr>"

definition aspirin_data :: ComparisonData where
  "aspirin_data = \<lparr>molecule1 = ''Aspirin'', molecule2 = ''Unknown''\<rparr>"

definition aspirin_only :: services where
  "aspirin_only =
     \<lparr>validateComparisonInputs =
        (\<lambda>a b. Inr \<lparr>mol1Valid = (a = ''aspirin''), mol2Valid = (b = ''aspirin'')\<rparr>),
      compareMoleculesText = (\<lambda>a b. Inr aspirin_data)\<rparr>"

definition blank_query :: ComparisonEngine where
  "blank_query =
     \<lparr>mol1 = ''aspirin'', mol2 = [CHR 0x20, CHR 0x09], loading = False,
      error = Some ''earlier error'', data = Some aspirin_data\<rparr>"

text \<open>The viewer is mounted for water and then switched to ethanol, before any response.\<close>

definition switched :: fetcher where
  "switched = fetch_run [Rename ''ethanol''] (mount ''water'')"

section \<open>Viewport controller: the scale stays in range\<close>

lemma handleWheel_clamped:
  "0.5 \<le> t_k (handleWheel rendered deltaY prev) \<and> t_k (handleWheel rendered deltaY prev) \<le> 5"
  by (simp add: handleWheel_def Let_def)

lemma viewport_step_in_range:
  "scale_in_range v \<Longrightarrow> scale_in_range (viewport_step v e)"
proof (cases e)
  case ZoomIn
  assume "scale_in_range v"
  then show ?thesis using ZoomIn
    by (simp add: scale_in_range_def handleZoomIn_def)
next
  case ZoomOut
  assume "scale_in_range v"
  then show ?thesis using ZoomOut
    by (simp add: scale_in_range_def handleZoomOut_def)
next
  case Reset
  then show ?thesis
    by (simp add: scale_in_range_def handleReset_def)
next
  case (Wheel d)
  then show ?thesis
    using handleWheel_clamped [of "transform v" d "transform v"]
    by (simp add: scale_in_range_def)
next
  case (MouseDown cx cy)
  assume "scale_in_range v"
  then show ?thesis using MouseDown
    by (simp add: scale_in_range_def handleMouseDown_def)
next
  case (MouseMove cx cy)
  assume "scale_in_range v"
  then show ?thesis using MouseMove
    by (simp add: scale_in_range_def handleMouseMove_def)
next
  case MouseUp
  assume "scale_in_range v"
  then show ?thesis using MouseUp
    by (simp add: scale_in_range_def handleMouseUp_def)
qed

lemma foldl_viewport_step_in_range:
  "scale_in_range v \<Longrightarrow> scale_in_range (foldl viewport_step v evs)"
  by (induction evs arbitrary: v) (simp_all add: viewport_step_in_range)

lemma initial_viewport_in_range: "scale_in_range initial_viewport"
  by (simp add: scale_in_range_def initial_viewport_def identity_transform_def)

text \<open>
  Claim C3. Starting from the identity transform, after any sequence of zoom-in, zoom-out,
  wheel and reset operations (and of drag events, which leave the scale alone) the scale
  \<open>k\<close> of the committed transform lies in \<open>[0.5, 5]\<close>. The statement holds for every event
  list, hence after every operation of a run.
\<close>

theorem viewport_scale_within_bounds:
  "0.5 \<le> t_k (transform (viewport_run evs initial_viewport)) \<and>
   t_k (transform (viewport_run evs initial_viewport)) \<le> 5"
  using foldl_viewport_step_in_range [OF initial_viewport_in_range, of evs]
  by (simp add: scale_in_range_def viewport_run_def)

section \<open>2D coordinate resolver: source priority\<close>

lemma resolve2D_selected:
  assumes "select_source pc sd = (a # rest, bs, fb, off)"
  shows "r_nodes (resolve2D pc sd) = a # rest \<and> r_connections (resolve2D pc sd) = bs \<and>
         r_isFallback (resolve2D pc sd) = fb \<and> r_isOfficial (resolve2D pc sd) = off"
  by (simp add: resolve2D_def assms Let_def)

lemma resolve2D_empty:
  assumes "select_source pc sd = ([], bs, fb, off)"
  shows "resolve2D pc sd = placeholder2D"
  by (simp add: resolve2D_def assms)

lemma project3D_empty: "project3D as = [] \<longleftrightarrow> as = []"
  by (cases as) (simp_all add: project3D_def)

text \<open>PubChem data with atoms is used whatever the structure holds.\<close>

lemma resolver_pubchem_first:
  assumes "s2_atoms pc \<noteq> []"
  shows "r_nodes (resolve2D (Some pc) sd) = s2_atoms pc \<and>
         r_connections (resolve2D (Some pc) sd) = s2_bonds pc \<and>
         r_isOfficial (resolve2D (Some pc) sd) \<and> \<not> r_isFallback (resolve2D (Some pc) sd)"
proof -
  from assms obtain a rest where ne: "s2_atoms pc = a # rest"
    by (cases "s2_atoms pc") auto
  have "select_source (Some pc) sd = (a # rest, s2_bonds pc, False, True)"
    by (simp add: select_source_def ne)
  from resolve2D_selected [OF this] show ?thesis by (simp add: ne)
qed

text \<open>Without PubChem data, a model layout with atoms is used.\<close>

lemma resolver_model2D_second:
  assumes "ms_structure2D sd = Some s2" and "s2_atoms s2 \<noteq> []"
  shows "r_nodes (resolve2D None (Some sd)) = s2_atoms s2 \<and>
         r_connections (resolve2D None (Some sd)) = s2_bonds s2 \<and>
         \<not> r_isOfficial (resolve2D None (Some sd)) \<and> \<not> r_isFallback (resolve2D None (Some sd))"
proof -
  from assms obtain a rest where ne: "s2_atoms s2 = a # rest"
    by (cases "s2_atoms s2") auto
  have "select_source None (Some sd) = (a # rest, s2_bonds s2, False, False)"
    using assms by (simp add: select_source_def ne)
  from resolve2D_selected [OF this] show ?thesis by (simp add: ne)
qed

text \<open>Without PubChem data and without a model layout with atoms, the 3D atoms are projected
  and the result is flagged as fallback.\<close>

lemma resolver_projection_last:
  assumes "ms_structure2D sd = None \<or> (\<exists>s2. ms_structure2D sd = Some s2 \<and> s2_atoms s2 = [])"
    and "ms_atoms sd \<noteq> []"
  shows "r_nodes (resolve2D None (Some sd)) = project3D (ms_atoms sd) \<and>
         r_connections (resolve2D None (Some sd)) = ms_bonds sd \<and>
         \<not> r_isOfficial (resolve2D None (Some sd)) \<and> r_isFallback (resolve2D None (Some sd))"
proof -
  from assms(2) obtain a rest where ne: "project3D (ms_atoms sd) = a # rest"
    by (cases "project3D (ms_atoms sd)") (auto simp: project3D_empty)
  have "select_source None (Some sd) = (a # rest, ms_bonds sd, True, False)"
    using assms by (auto simp add: select_source_def ne)
  from resolve2D_selected [OF this] show ?thesis by (simp add: ne)
qed

text \<open>Without PubChem data and without atoms of either kind, the placeholder state.\<close>

lemma resolver_none:
  assumes "sd = None \<or> (\<exists>d. sd = Some d \<and> ms_atoms d = [] \<and>
             (ms_structure2D d = None \<or> (\<exists>s2. ms_structure2D d = Some s2 \<and> s2_atoms s2 = [])))"
  shows "resolve2D None sd = placeholder2D"
proof -
  have "select_source None sd = ([], [], False, False)"
    using assms by (auto simp add: select_source_def)
  then show ?thesis by (rule resolve2D_empty)
qed

text \<open>PubChem data that is present and empty ends the selection: the placeholder state,
  whatever the structure holds.\<close>

lemma resolver_pubchem_empty:
  assumes "s2_atoms pc = []"
  shows "resolve2D (Some pc) sd = placeholder2D"
proof -
  have "select_source (Some pc) sd = ([], s2_bonds pc, False, True)"
    by (simp add: select_source_def assms)
  then show ?thesis by (rule resolve2D_empty)
qed

text \<open>
  Claim C1. The resolver uses the PubChem layout if present and non-empty, otherwise the
  model layout if present and non-empty, otherwise the projection of the 3D atoms, otherwise
  the placeholder state. The code departs from this when the PubChem layout is present and
  empty: for \<open>water\<close>, which has a model layout of three atoms, the resolver with the empty
  PubChem layout yields the placeholder state, while without PubChem data it yields the
  three atoms of the model layout.
\<close>

theorem resolver_empty_pubchem_hides_model_layout:
  "resolve2D (Some empty_layout) (Some water) = placeholder2D \<and>
   r_nodes (resolve2D None (Some water)) = s2_atoms water2D \<and>
   s2_atoms water2D \<noteq> []"
  by (simp add: resolve2D_def select_source_def empty_layout_def water_def water2D_def Let_def)

section \<open>Geometry normalizer: centroid and radius\<close>






















section \<open>Bonds whose endpoints do not resolve\<close>

lemma find_None_id: "i \<notin> id2 ` set nodes \<Longrightarrow> find (\<lambda>n. id2 n = i) nodes = None"
  by (auto simp: find_None_iff)

text \<open>The 2D renderer returns \<^verbatim>\<open>null\<close> for a bond with an endpoint that is no atom id.\<close>

lemma renderBond_dangling:
  "b_from conn \<notin> id2 ` set nodes \<or> b_to conn \<notin> id2 ` set nodes \<Longrightarrow>
   renderBond p ss nodes conn = None"
  by (auto simp: renderBond_def find_None_id split: option.splits)

text \<open>The 3D scene throws for a connection with an index outside the node array.\<close>

lemma bond3D_dangling:
  "index nodes (fst conn) = None \<or> index nodes (snd conn) = None \<Longrightarrow>
   bond3D nodes conn = Inl TypeError"
  by (auto simp: bond3D_def split: option.splits)

lemma map_result_throws:
  assumes "x \<in> set xs" and "f x = Inl TypeError"
  shows "map_result f xs = Inl TypeError"
  using assms
proof (induction xs)
  case Nil
  then show ?case by simp
next
  case (Cons y ys)
  show ?case
  proof (cases "f y")
    case (Inl e)
    then show ?thesis by (cases e) simp
  next
    case (Inr v)
    show ?thesis
    proof (cases "x = y")
      case True
      with Inr Cons.prems show ?thesis by simp
    next
      case False
      with Cons have "map_result f ys = Inl TypeError" by simp
      with Inr show ?thesis by simp
    qed
  qed
qed

lemma scene3D_nodes_length:
  "length (fst (scene3D (Some sd))) = length (ms_atoms sd)"
  by (simp add: scene3D_def Let_def)

lemma scene3D_connections:
  "ms_atoms sd \<noteq> [] \<Longrightarrow> snd (scene3D (Some sd)) = map (\<lambda>b. (b_from b, b_to b)) (ms_bonds sd)"
  by (simp add: scene3D_def Let_def)

text \<open>Every structure with atoms and a bond that has an index outside the atom list makes
  the 3D scene throw.\<close>

lemma MoleculeStructure3D_dangling:
  assumes "ms_atoms sd \<noteq> []" and "b \<in> set (ms_bonds sd)"
    and "\<not> (0 \<le> b_from b \<and> b_from b < int (length (ms_atoms sd))) \<or>
         \<not> (0 \<le> b_to b \<and> b_to b < int (length (ms_atoms sd)))"
  shows "MoleculeStructure3D (Some sd) = Inl TypeError"
proof -
  obtain nodes connections where sc: "scene3D (Some sd) = (nodes, connections)"
    by (cases "scene3D (Some sd)")
  have len: "length nodes = length (ms_atoms sd)"
    using scene3D_nodes_length [of sd] by (simp add: sc)
  have conns: "connections = map (\<lambda>b. (b_from b, b_to b)) (ms_bonds sd)"
    using scene3D_connections [OF assms(1)] by (simp add: sc)
  have "index nodes (b_from b) = None \<or> index nodes (b_to b) = None"
    using assms(3) by (auto simp: index_def len)
  then have "bond3D nodes (b_from b, b_to b) = Inl TypeError"
    using bond3D_dangling [of nodes "(b_from b, b_to b)"] by simp
  moreover have "(b_from b, b_to b) \<in> set connections"
    using assms(2) by (auto simp: conns)
  ultimately have "map_result (bond3D nodes) connections = Inl TypeError"
    by (rule map_result_throws [rotated])
  moreover have "nodes \<noteq> []"
    using assms(1) len by auto
  ultimately show ?thesis
    by (simp add: MoleculeStructure3D_def sc)
qed

text \<open>
  Claim C5. A bond that references an atom absent from the atom list is skipped silently by
  the 2D bond renderer and by the 3D scene builder. The 2D renderer does so; the 3D scene
  does not: for \<open>dangling3D\<close>, whose only bond ends at index 5 of a one-atom list, rendering
  the 3D scene throws a \<^verbatim>\<open>TypeError\<close>, while the 2D renderer skips the same bond.
\<close>

theorem scene3D_dangling_bond_throws:
  "MoleculeStructure3D (Some dangling3D) = Inl TypeError \<and>
   renderBonds2D None (Some dangling3D) 1 = Some [None]"
  by (simp add: MoleculeStructure3D_def scene3D_def dangling3D_def bond3D_def index_def Let_def
      renderBonds2D_def resolve2D_def select_source_def project3D_def renderBond_def)

section \<open>2D bond renderer: primitives by bond order\<close>

text \<open>
  Claim C6. For a bond whose endpoints resolve to the atoms \<open>f\<close> and \<open>t\<close>, every line runs
  from \<open>f\<close> to \<open>t\<close> and, with \<open>w\<close> the base width: order 2 gives two lines, a stroke of
  width \<open>2.5 w\<close> in the colour of the group and a gap of width \<open>0.8 w\<close> in the background
  colour; order 3 gives three lines, a stroke of width \<open>3.5 w\<close>, a background gap of width
  \<open>1.5 w\<close> and a stroke of width \<open>0.5 w\<close> in the bond colour; order 4 gives a dashed line
  with dashes \<open>2 w\<close> and gaps \<open>w\<close>, and a solid line of opacity \<open>0.5\<close>, both of width \<open>w\<close>;
  any other order gives one solid line of width \<open>w\<close>. No other line has a dash pattern or
  an opacity.
\<close>

theorem bond_primitives_by_order:
  assumes "find (\<lambda>n. id2 n = b_from conn) nodes = Some f"
    and "find (\<lambda>n. id2 n = b_to conn) nodes = Some t"
  shows "(let w = baseWidth_of p ss in
     (b_order conn = 2 \<longrightarrow> renderBond p ss nodes conn =
        Some [\<lparr>l_x1 = x2 f, l_y1 = y2 f, l_x2 = x2 t, l_y2 = y2 t,
                l_stroke = None, l_strokeWidth = w * 2.5,
                l_strokeDasharray = None, l_opacity = None\<rparr>,
              \<lparr>l_x1 = x2 f, l_y1 = y2 f, l_x2 = x2 t, l_y2 = y2 t,
                l_stroke = Some ''#0B0F19'', l_strokeWidth = w * 0.8,
                l_strokeDasharray = None, l_opacity = None\<rparr>]) \<and>
     (b_order conn = 3 \<longrightarrow> renderBond p ss nodes conn =
        Some [\<lparr>l_x1 = x2 f, l_y1 = y2 f, l_x2 = x2 t, l_y2 = y2 t,
                l_stroke = None, l_strokeWidth = w * 3.5,
                l_strokeDasharray = None, l_opacity = None\<rparr>,
              \<lparr>l_x1 = x2 f, l_y1 = y2 f, l_x2 = x2 t, l_y2 = y2 t,
                l_stroke = Some ''#0B0F19'', l_strokeWidth = w * 1.5,
                l_strokeDasharray = None, l_opacity = None\<rparr>,
              \<lparr>l_x1 = x2 f, l_y1 = y2 f, l_x2 = x2 t, l_y2 = y2 t,
                l_stroke = Some ''#94a3b8'', l_strokeWidth = w * 0.5,
                l_strokeDasharray = None, l_opacity = None\<rparr>]) \<and>
     (b_order conn = 4 \<longrightarrow> renderBond p ss nodes conn =
        Some [\<lparr>l_x1 = x2 f, l_y1 = y2 f, l_x2 = x2 t, l_y2 = y2 t,
                l_stroke = None, l_strokeWidth = w,
                l_strokeDasharray = Some (w * 2, w), l_opacity = None\<rparr>,
              \<lparr>l_x1 = x2 f, l_y1 = y2 f, l_x2 = x2 t, l_y2 = y2 t,
                l_stroke = None, l_strokeWidth = w,
                l_strokeDasharray = None, l_opacity = Some 0.5\<rparr>]) \<and>
     (b_order conn \<noteq> 2 \<and> b_order conn \<noteq> 3 \<and> b_order conn \<noteq> 4 \<longrightarrow>
        renderBond p ss nodes conn =
        Some [\<lparr>l_x1 = x2 f, l_y1 = y2 f, l_x2 = x2 t, l_y2 = y2 t,
                l_stroke = None, l_strokeWidth = w,
                l_strokeDasharray = None, l_opacity = None\<rparr>]))"
  using assms
  by (simp add: renderBond_def segment_def backgroundColor_def bondColor_def Let_def)

lemma baseWidth_of_model_unit: "baseWidth_of False 1 = 3"
  by (simp add: baseWidth_of_def)

theorem bond_primitives_by_order_witness:
  "renderBond False 1 carbon_pair (bond79 2) =
     Some [\<lparr>l_x1 = 0, l_y1 = 0, l_x2 = 30, l_y2 = 40,
             l_stroke = None, l_strokeWidth = 7.5,
             l_strokeDasharray = None, l_opacity = None\<rparr>,
           \<lparr>l_x1 = 0, l_y1 = 0, l_x2 = 30, l_y2 = 40,
             l_stroke = Some ''#0B0F19'', l_strokeWidth = 2.4,
             l_strokeDasharray = None, l_opacity = None\<rparr>] \<and>
   renderBond False 1 carbon_pair (bond79 3) =
     Some [\<lparr>l_x1 = 0, l_y1 = 0, l_x2 = 30, l_y2 = 40,
             l_stroke = None, l_strokeWidth = 10.5,
             l_strokeDasharray = None, l_opacity = None\<rparr>,
           \<lparr>l_x1 = 0, l_y1 = 0, l_x2 = 30, l_y2 = 40,
             l_stroke = Some ''#0B0F19'', l_strokeWidth = 4.5,
             l_strokeDasharray = None, l_opacity = None\<rparr>,
           \<lparr>l_x1 = 0, l_y1 = 0, l_x2 = 30, l_y2 = 40,
             l_stroke = Some ''#94a3b8'', l_strokeWidth = 1.5,
             l_strokeDasharray = None, l_opacity = None\<rparr>] \<and>
   renderBond False 1 carbon_pair (bond79 4) =
     Some [\<lparr>l_x1 = 0, l_y1 = 0, l_x2 = 30, l_y2 = 40,
             l_stroke = None, l_strokeWidth = 3,
             l_strokeDasharray = Some (6, 3), l_opacity = None\<rparr>,
           \<lparr>l_x1 = 0, l_y1 = 0, l_x2 = 30, l_y2 = 40,
             l_stroke = None, l_strokeWidth = 3,
             l_strokeDasharray = None, l_opacity = Some 0.5\<rparr>] \<and>
   renderBond False 1 carbon_pair (bond79 1) =
     Some [\<lparr>l_x1 = 0, l_y1 = 0, l_x2 = 30, l_y2 = 40,
             l_stroke = None, l_strokeWidth = 3,
             l_strokeDasharray = None, l_opacity = None\<rparr>]"
proof -
  define f :: Atom2D where "f = \<lparr>id2 = 7, element2 = ''C'', x2 = 0, y2 = 0\<rparr>"
  define t :: Atom2D where "t = \<lparr>id2 = 9, element2 = ''C'', x2 = 30, y2 = 40\<rparr>"
  have ff: "find (\<lambda>n. id2 n = b_from (bond79 ord)) carbon_pair = Some f" for ord
    by (simp add: carbon_pair_def bond79_def f_def)
  have ft: "find (\<lambda>n. id2 n = b_to (bond79 ord)) carbon_pair = Some t" for ord
    by (simp add: carbon_pair_def bond79_def t_def)
  have o: "b_order (bond79 ord) = ord" for ord
    by (simp add: bond79_def)
  have xy: "x2 f = 0" "y2 f = 0" "x2 t = 30" "y2 t = 40"
    by (simp_all add: f_def t_def)
  note g = bond_primitives_by_order
    [OF ff ft, where p = False and ss = 1, unfolded Let_def baseWidth_of_model_unit o xy]
  show ?thesis
    using g [of 2] g [of 3] g [of 4] g [of 1] by simp
qed

section \<open>Sphere radius and colour of an element\<close>

lemma own_values_nonempty: "map_of ATOM_COLORS_own key = Some c \<Longrightarrow> c \<noteq> []"
  by (auto simp: ATOM_COLORS_own_def split: if_splits)

lemma prototype_key_head:
  "key \<in> set Object_prototype_keys \<Longrightarrow>
   \<exists>k ks. key = k # ks \<and>
     ((97 \<le> (of_char k :: nat) \<and> (of_char k :: nat) \<le> 122) \<or> (of_char k :: nat) = 95)"
  unfolding Object_prototype_keys_def by (elim disjE | simp)+

lemma toUpperCase_char_cases:
  assumes "toUpperCase_char c = Some u"
  shows "u = [c] \<and> \<not> (97 \<le> (of_char c :: nat) \<and> (of_char c :: nat) \<le> 122)
         \<or> u = ''SS''
         \<or> (\<exists>d. u = [d] \<and> (of_char d :: nat) + 32 = of_char c \<and>
               97 \<le> (of_char c :: nat) \<and>
               \<not> (123 \<le> (of_char c :: nat) \<and> (of_char c :: nat) < 224))"
proof -
  define n where "n = (of_char c :: nat)"
  have bound: "n < 256" by (simp add: n_def)
  have shifted: "(of_char (char_of (n - 32)) :: nat) + 32 = n" if "32 \<le> n"
    using that bound by simp
  consider (lower) "97 \<le> n \<and> n \<le> 122"
    | (sharp) "n = 223"
    | (outside) "n = 181 \<or> n = 255"
    | (latin) "224 \<le> n \<and> n \<le> 254 \<and> n \<noteq> 247"
    | (other) "\<not> (97 \<le> n \<and> n \<le> 122) \<and> n \<noteq> 223 \<and> \<not> (n = 181 \<or> n = 255) \<and>
               \<not> (224 \<le> n \<and> n \<le> 254 \<and> n \<noteq> 247)"
    by blast
  then show ?thesis
  proof cases
    case lower
    then have "u = [char_of (n - 32)]"
      using assms by (simp add: toUpperCase_char_def Let_def n_def)
    with lower shifted show ?thesis by (simp add: n_def)
  next
    case sharp
    then have "u = ''SS''"
      using assms by (simp add: toUpperCase_char_def Let_def n_def)
    then show ?thesis by simp
  next
    case outside
    then have False
      using assms by (auto simp add: toUpperCase_char_def Let_def n_def)
    then show ?thesis ..
  next
    case latin
    then have "u = [char_of (n - 32)]"
      using assms by (simp add: toUpperCase_char_def Let_def n_def)
    with latin shifted show ?thesis by (simp add: n_def)
  next
    case other
    then have "u = [c]"
      using assms by (auto simp add: toUpperCase_char_def Let_def n_def split: if_splits)
    with other show ?thesis by (simp add: n_def)
  qed
qed

text \<open>Upper-casing the first character of a symbol never yields the name of an inherited
  member, unless the symbol is one.\<close>

lemma capitalized_not_inherited:
  assumes "el \<notin> set Object_prototype_keys" and "capitalized el = Some key"
  shows "key \<notin> set Object_prototype_keys"
proof
  assume key: "key \<in> set Object_prototype_keys"
  then obtain k ks where k: "key = k # ks"
    and kh: "(97 \<le> (of_char k :: nat) \<and> (of_char k :: nat) \<le> 122) \<or> (of_char k :: nat) = 95"
    using prototype_key_head by blast
  show False
  proof (cases el)
    case Nil
    with assms(2) k show False by (simp add: capitalized_def)
  next
    case (Cons c cs)
    with assms(2) obtain u where u: "toUpperCase_char c = Some u" and ku: "key = u @ cs"
      by (auto simp: capitalized_def split: option.splits)
    from toUpperCase_char_cases [OF u]
    consider (same) "u = [c]" | (sharp) "u = ''SS''"
      | (shift) d where "u = [d]" "(of_char d :: nat) + 32 = of_char c"
          "97 \<le> (of_char c :: nat)"
          "\<not> (123 \<le> (of_char c :: nat) \<and> (of_char c :: nat) < 224)"
      by blast
    then show False
    proof cases
      case same
      with ku Cons key assms(1) show False by simp
    next
      case sharp
      with ku k kh show False by simp
    next
      case shift
      with ku k have "k = d" by simp
      with kh shift show False by auto
    qed
  qed
qed

lemma default_colour: "ATOM_COLORS ''default'' = Str ''#DA70D6''"
  by (simp add: ATOM_COLORS_def ATOM_COLORS_own_def)

lemma ATOM_COLORS_not_inherited:
  "key \<notin> set Object_prototype_keys \<Longrightarrow>
   ATOM_COLORS key = (case map_of ATOM_COLORS_own key of Some c \<Rightarrow> Str c | None \<Rightarrow> Undefined)"
  by (simp add: ATOM_COLORS_def split: option.splits)

lemma getAtomColor_lookup:
  assumes "el \<notin> set Object_prototype_keys"
  shows "getAtomColor el =
     (case map_of ATOM_COLORS_own el of
        Some c \<Rightarrow> Str c
      | None \<Rightarrow>
          (case capitalized el of
             None \<Rightarrow> Str ''#DA70D6''
           | Some key \<Rightarrow>
               (case map_of ATOM_COLORS_own key of
                  Some c \<Rightarrow> Str c
                | None \<Rightarrow> Str ''#DA70D6'')))"
proof (cases "map_of ATOM_COLORS_own el")
  case (Some c)
  then show ?thesis
    using own_values_nonempty [OF Some] assms
    by (simp add: getAtomColor_def ATOM_COLORS_not_inherited js_or_def truthy_def)
next
  case None
  note el_none = None
  show ?thesis
  proof (cases "capitalized el")
    case None
    then show ?thesis using el_none assms
      by (simp add: getAtomColor_def ATOM_COLORS_not_inherited js_or_def truthy_def
          default_colour)
  next
    case (Some key)
    note cap = Some
    have k: "key \<notin> set Object_prototype_keys"
      using capitalized_not_inherited [OF assms Some] .
    show ?thesis
    proof (cases "map_of ATOM_COLORS_own key")
      case None
      then show ?thesis using el_none assms cap k
        by (simp add: getAtomColor_def ATOM_COLORS_not_inherited js_or_def truthy_def
            default_colour)
    next
      case (Some c)
      then show ?thesis using el_none assms cap k own_values_nonempty [OF Some]
        by (simp add: getAtomColor_def ATOM_COLORS_not_inherited js_or_def truthy_def)
    qed
  qed
qed

text \<open>
  Claim C9, as the code has it. The sphere of the symbol \<^verbatim>\<open>H\<close> has radius \<open>0.2\<close>, that of
  every other symbol \<open>0.35\<close>. For a symbol that is not the name of a member inherited from
  \<^verbatim>\<open>Object.prototype\<close>, the colour is the table entry of the symbol as written; failing
  that, the table entry of the symbol with its first character in upper case and the rest
  unchanged; failing that, the neutral colour.
\<close>

theorem sphere_radius_and_colour:
  "sphereRadius ''H'' = 0.2 \<and>
   (el \<noteq> ''H'' \<longrightarrow> sphereRadius el = 0.35 \<and> sphereRadius ''H'' < sphereRadius el) \<and>
   (el \<notin> set Object_prototype_keys \<longrightarrow>
      getAtomColor el =
        (case map_of ATOM_COLORS_own el of
           Some c \<Rightarrow> Str c
         | None \<Rightarrow>
             (case capitalized el of
                None \<Rightarrow> Str ''#DA70D6''
              | Some key \<Rightarrow>
                  (case map_of ATOM_COLORS_own key of
                     Some c \<Rightarrow> Str c
                   | None \<Rightarrow> Str ''#DA70D6''))))"
  using getAtomColor_lookup [of el] by (simp add: sphereRadius_def)

theorem sphere_radius_and_colour_witness:
  "''cl'' \<noteq> ''H'' \<and> ''cl'' \<notin> set Object_prototype_keys \<and>
   sphereRadius ''H'' < sphereRadius ''cl'' \<and> getAtomColor ''cl'' = Str ''#1FF01F''"
proof -
  have a: "''cl'' \<noteq> ''H''" by simp
  have b: "''cl'' \<notin> set Object_prototype_keys" by (simp add: Object_prototype_keys_def)
  have c: "map_of ATOM_COLORS_own ''cl'' = None" by (simp add: ATOM_COLORS_own_def)
  have d: "capitalized ''cl'' = Some ''Cl''"
    by (simp add: capitalized_def toUpperCase_char_def Let_def char_of_eq_iff)
  have e: "map_of ATOM_COLORS_own ''Cl'' = Some ''#1FF01F''" by (simp add: ATOM_COLORS_own_def)
  from sphere_radius_and_colour [of "''cl''"] a b
  have "sphereRadius ''H'' < sphereRadius ''cl''" and "getAtomColor ''cl'' = Str ''#1FF01F''"
    by (simp_all add: c d e)
  with a b show ?thesis by simp
qed

text \<open>The matching is not case-insensitive: \<^verbatim>\<open>CL\<close> does not get the colour of \<^verbatim>\<open>Cl\<close>.\<close>

theorem colour_matching_case_counterexample:
  "getAtomColor ''Cl'' = Str ''#1FF01F'' \<and> getAtomColor ''CL'' = Str ''#DA70D6''"
  by (simp add: getAtomColor_def ATOM_COLORS_def ATOM_COLORS_own_def Object_prototype_keys_def
      js_or_def truthy_def capitalized_def toUpperCase_char_def Let_def char_of_eq_iff)

section \<open>External structure fetcher: late responses\<close>

lemma switched_eq:
  "switched = \<lparr>moleculeName = ''ethanol'', pubChemData = None, isLoadingPubChem = True,
      inflight = [(0, ''water''), (1, ''ethanol'')], issued = 2\<rparr>"
  by (simp add: switched_def fetch_run_def mount_def fetchPubChem_start_def)

text \<open>
  Claim C4, as the code has it. When the response of an outstanding request arrives with a
  parsed structure, the structure becomes the displayed PubChem data, whatever the current
  molecule name is: the code after the \<^verbatim>\<open>await\<close> does not compare the name it was called for
  with the current one. What a change to a new, non-empty name does is to clear the displayed
  data and to issue the request for the new name.
\<close>

theorem resolved_result_is_applied:
  "(map_of (inflight s) i = Some name \<longrightarrow>
      pubChemData (fetch_step s (Resolve i (Parsed d))) = Some d \<and>
      moleculeName (fetch_step s (Resolve i (Parsed d))) = moleculeName s \<and>
      \<not> isLoadingPubChem (fetch_step s (Resolve i (Parsed d))) \<and>
      inflight (fetch_step s (Resolve i (Parsed d))) = filter (\<lambda>r. fst r \<noteq> i) (inflight s)) \<and>
   (new \<noteq> [] \<and> new \<noteq> moleculeName s \<longrightarrow>
      pubChemData (fetch_step s (Rename new)) = None \<and>
      moleculeName (fetch_step s (Rename new)) = new \<and>
      isLoadingPubChem (fetch_step s (Rename new)) \<and>
      inflight (fetch_step s (Rename new)) = inflight s @ [(issued s, new)])"
  by (simp add: fetchPubChem_settle_def fetchPubChem_start_def)

theorem resolved_result_is_applied_witness:
  "map_of (inflight switched) 0 = Some ''water'' \<and>
   moleculeName switched = ''ethanol'' \<and>
   pubChemData (fetch_step switched (Resolve 0 (Parsed water2D))) = Some water2D \<and>
   moleculeName (fetch_step switched (Resolve 0 (Parsed water2D))) = ''ethanol'' \<and>
   ''ethanol'' \<noteq> [] \<and> ''ethanol'' \<noteq> moleculeName (mount ''water'') \<and>
   pubChemData (fetch_step (mount ''water'') (Rename ''ethanol'')) = None"
proof -
  have a: "map_of (inflight switched) 0 = Some ''water''"
    and b: "moleculeName switched = ''ethanol''"
    by (simp_all add: switched_eq)
  have c: "''ethanol'' \<noteq> [] \<and> ''ethanol'' \<noteq> moleculeName (mount ''water'')"
    by (simp add: mount_def fetchPubChem_start_def)
  from resolved_result_is_applied [of switched 0 "''water''" water2D] a b
  have "pubChemData (fetch_step switched (Resolve 0 (Parsed water2D))) = Some water2D"
    and "moleculeName (fetch_step switched (Resolve 0 (Parsed water2D))) = ''ethanol''"
    by simp_all
  moreover from resolved_result_is_applied [of "mount ''water''" _ _ _ "''ethanol''"] c
  have "pubChemData (fetch_step (mount ''water'') (Rename ''ethanol'')) = None"
    by blast
  ultimately show ?thesis using a b c by simp
qed

text \<open>The claim as stated fails: water's request is outstanding when the name changes to
  ethanol; its response arrives after ethanol's request was issued, and water's layout is
  displayed under the name ethanol.\<close>

theorem stale_result_overwrites_counterexample:
  "moleculeName switched = ''ethanol'' \<and>
   inflight switched = [(0, ''water''), (1, ''ethanol'')] \<and>
   pubChemData switched = None \<and>
   pubChemData (fetch_run [Resolve 0 (Parsed water2D)] switched) = Some water2D \<and>
   moleculeName (fetch_run [Resolve 0 (Parsed water2D)] switched) = ''ethanol''"
  by (simp add: switched_eq fetch_run_def fetchPubChem_settle_def)

section \<open>Tolerant JSON parser: no exception, no fence\<close>













section \<open>Comparison engine: validation before comparison\<close>

lemma trim_empty_iff: "trim s = [] \<longleftrightarrow> (\<forall>c\<in>set s. isWhiteSpace c)"
proof
  assume "trim s = []"
  then have all: "\<forall>c\<in>set (dropWhile isWhiteSpace s). isWhiteSpace c"
    by (simp add: trim_def dropWhile_eq_Nil_conv)
  have "dropWhile isWhiteSpace s = []"
  proof (rule ccontr)
    assume ne: "dropWhile isWhiteSpace s \<noteq> []"
    then have "\<not> isWhiteSpace (hd (dropWhile isWhiteSpace s))"
      by (rule hd_dropWhile)
    moreover have "hd (dropWhile isWhiteSpace s) \<in> set (dropWhile isWhiteSpace s)"
      using ne by simp
    ultimately show False using all by blast
  qed
  then show "\<forall>c\<in>set s. isWhiteSpace c"
    by (simp add: dropWhile_eq_Nil_conv)
next
  assume "\<forall>c\<in>set s. isWhiteSpace c"
  then have d: "dropWhile isWhiteSpace s = []"
    by (simp add: dropWhile_eq_Nil_conv)
  show "trim s = []" unfolding trim_def d by simp
qed

text \<open>
  Claim C10. If one of the two inputs is empty or consists of white space only,
  \<^verbatim>\<open>handleCompare\<close> returns at once: the state of the component, with its loading flag,
  error and result, is the one it was given, and no request is issued.
\<close>

theorem handleCompare_blank_input_noop:
  assumes "(\<forall>c\<in>set (mol1 s). isWhiteSpace c) \<or> (\<forall>c\<in>set (mol2 s). isWhiteSpace c)"
  shows "handleCompare api now s = (s, [])"
  using assms by (simp add: handleCompare_def trim_empty_iff)

text \<open>
  Claim C7, as the code has it. When the validation call marks the first input valid and
  the second invalid, the error shown is \<^verbatim>\<open>Invalid Input: \<close> followed by the second input
  between double quotes and \<^verbatim>\<open> is not a recognized molecule or valid structure format.\<close>;
  loading ends, there is no result, and the validation request is the only request issued.
  A comparison request is issued only after a validation request whose answer marks both
  inputs valid.
\<close>

theorem handleCompare_second_invalid:
  "(trim (mol1 s) \<noteq> [] \<and> trim (mol2 s) \<noteq> [] \<and>
    validateComparisonInputs api (mol1 s) (mol2 s) = Inr v \<and> mol1Valid v \<and> \<not> mol2Valid v \<longrightarrow>
      handleCompare api now s =
        (s\<lparr>loading := False,
           error := Some (''Invalid Input: '' @ quoted (mol2 s) @
                          '' is not a recognized molecule or valid structure format.''),
           data := None\<rparr>,
         [ValidationRequest (mol1 s) (mol2 s)])) \<and>
   (ComparisonRequest a b \<in> set (snd (handleCompare api now s)) \<longrightarrow>
      a = mol1 s \<and> b = mol2 s \<and>
      snd (handleCompare api now s) ! 0 = ValidationRequest (mol1 s) (mol2 s) \<and>
      (\<exists>v. validateComparisonInputs api (mol1 s) (mol2 s) = Inr v \<and> mol1Valid v \<and> mol2Valid v))"
proof -
  have first: "handleCompare api now s =
        (s\<lparr>loading := False,
           error := Some (''Invalid Input: '' @ quoted (mol2 s) @
                          '' is not a recognized molecule or valid structure format.''),
           data := None\<rparr>,
         [ValidationRequest (mol1 s) (mol2 s)])"
    if "trim (mol1 s) \<noteq> []" "trim (mol2 s) \<noteq> []"
      "validateComparisonInputs api (mol1 s) (mol2 s) = Inr v" "mol1Valid v" "\<not> mol2Valid v"
    using that by (simp add: handleCompare_def Let_def)
  have second: "a = mol1 s \<and> b = mol2 s \<and>
      snd (handleCompare api now s) ! 0 = ValidationRequest (mol1 s) (mol2 s) \<and>
      (\<exists>v. validateComparisonInputs api (mol1 s) (mol2 s) = Inr v \<and> mol1Valid v \<and> mol2Valid v)"
    if "ComparisonRequest a b \<in> set (snd (handleCompare api now s))"
    using that
    by (auto simp add: handleCompare_def Let_def split: if_splits sum.splits)
  from first second show ?thesis by blast
qed

lemma trim_aspirin: "trim ''aspirin'' = ''aspirin''"
  by (simp add: trim_def isWhiteSpace_def)

lemma trim_xyz: "trim ''xyz123notamolecule'' = ''xyz123notamolecule''"
  by (simp add: trim_def isWhiteSpace_def)

theorem handleCompare_second_invalid_witness:
  "handleCompare aspirin_only 0 aspirin_query =
     (aspirin_query\<lparr>error := Some (''Invalid Input: '' @ quoted ''xyz123notamolecule'' @
                          '' is not a recognized molecule or valid structure format.'')\<rparr>,
      [ValidationRequest ''aspirin'' ''xyz123notamolecule''])"
proof -
  have "trim (mol1 aspirin_query) \<noteq> [] \<and> trim (mol2 aspirin_query) \<noteq> [] \<and>
    validateComparisonInputs aspirin_only (mol1 aspirin_query) (mol2 aspirin_query)
      = Inr \<lparr>mol1Valid = True, mol2Valid = False\<rparr> \<and>
    mol1Valid \<lparr>mol1Valid = True, mol2Valid = False\<rparr> \<and>
    \<not> mol2Valid \<lparr>mol1Valid = True, mol2Valid = False\<rparr>"
    by (simp add: aspirin_query_def aspirin_only_def trim_aspirin trim_xyz)
  with handleCompare_second_invalid
    [of aspirin_query aspirin_only "\<lparr>mol1Valid = True, mol2Valid = False\<rparr>" 0]
  show ?thesis by (simp add: aspirin_query_def)
qed

text \<open>The claim as stated fails: the message shown is not the sentence naming the second
  input alone, since it starts with \<^verbatim>\<open>Invalid Input: \<close>.\<close>

theorem handleCompare_message_counterexample:
  "error (fst (handleCompare aspirin_only 0 aspirin_query)) \<noteq>
     Some (quoted ''xyz123notamolecule'' @
           '' is not a recognized molecule or valid structure format.'')"
  by (simp add: handleCompare_def aspirin_query_def aspirin_only_def trim_aspirin trim_xyz
      Let_def quoted_def)

theorem handleCompare_blank_input_noop_witness:
  "mol2 blank_query = [CHR 0x20, CHR 0x09] \<and>
   isWhiteSpace (CHR 0x20) \<and> isWhiteSpace (CHR 0x09) \<and>
   handleCompare aspirin_only 0 blank_query = (blank_query, [])"
proof -
  have m: "mol2 blank_query = [CHR 0x20, CHR 0x09]"
    by (simp add: blank_query_def)
  have w: "isWhiteSpace (CHR 0x20) \<and> isWhiteSpace (CHR 0x09)"
    by (simp add: isWhiteSpace_def)
  then have "\<forall>c\<in>set (mol2 blank_query). isWhiteSpace c"
    by (simp add: m)
  then have "handleCompare aspirin_only 0 blank_query = (blank_query, [])"
    using handleCompare_blank_input_noop [of blank_query aspirin_only 0] by blast
  with m w show ?thesis by blast
qed

end
